theory Spec2Isabelle
  imports Main
begin

section \<open>The SRP request handlers of src/backend/thinbus-srp-server.js\<close>

text \<open>
  The module keeps one variable \<open>users\<close> (the user "DB", \<open>null\<close> until the first
  lookup), one file at \<open>STORAGE_PATH\<close>, and reads and writes the session object that
  express-session hands to every request. Each handler is modelled as a function from
  the request and that state to the response and the new state. A JavaScript exception
  that leaves a handler is the \<open>Inl\<close> of its result; \<open>handleRequest\<close> turns it into
  the 500 response of \<open>onError\<close>.
\<close>

subsection \<open>JavaScript values\<close>

text \<open>An entry of the user "DB": the object \<open>{salt: salt, verifier: verifier}\<close>.\<close>

record user_record =
  salt :: string
  verifier :: string

text \<open>
  What \<open>users[username]\<close> can evaluate to. \<open>users\<close> is a plain object, so a property
  read that finds no own property goes on along the prototype chain: it can find a
  member of \<open>Object.prototype\<close> (\<open>Builtin\<close>: a function, or \<open>Object.prototype\<close> itself
  for \<open>__proto__\<close>), or a string field of a record that was installed as the prototype.
\<close>

datatype js_value =
    Undefined
  | Null
  | Str string
  | UserEntry user_record
  | Builtin

text \<open>JavaScript's ToBoolean on these values: \<open>!user\<close> is \<open>\<not> truthy user\<close>.\<close>

fun truthy :: "js_value \<Rightarrow> bool" where
  "truthy Undefined = False"
| "truthy Null = False"
| "truthy (Str s) = (s \<noteq> [])"
| "truthy (UserEntry r) = True"
| "truthy Builtin = True"

text \<open>
  \<open>user.salt\<close> and \<open>user.verifier\<close> for a truthy \<open>user\<close>; \<open>None\<close> is \<open>undefined\<close>
  (a function, \<open>Object.prototype\<close> and a string primitive have no such property).
\<close>

fun get_salt :: "js_value \<Rightarrow> string option" where
  "get_salt (UserEntry r) = Some (salt r)"
| "get_salt v = None"

fun get_verifier :: "js_value \<Rightarrow> string option" where
  "get_verifier (UserEntry r) = Some (verifier r)"
| "get_verifier v = None"

text \<open>
  A request parameter is a string or missing (\<open>None\<close>); parameters of other JSON types
  are outside the model. \<open>!x\<close> holds for a missing parameter and for the empty string.
\<close>

definition absent :: "string option \<Rightarrow> bool" where
  "absent x = (case x of None \<Rightarrow> True | Some s \<Rightarrow> s = [])"

definition str_of :: "string option \<Rightarrow> string" where
  "str_of x = (case x of None \<Rightarrow> [] | Some s \<Rightarrow> s)"

subsection \<open>The object \<open>users\<close>\<close>

text \<open>
  \<open>own\<close> holds the own properties (what \<open>JSON.stringify\<close> writes and \<open>JSON.parse\<close>
  creates); \<open>proto\<close> is the prototype: \<open>None\<close> for \<open>Object.prototype\<close>, which every
  object literal and every parsed object starts with, \<open>Some r\<close> once an assignment to
  the key \<open>__proto__\<close> has installed the record \<open>r\<close>.
\<close>

record users_object =
  own :: "string \<rightharpoonup> user_record"
  proto :: "user_record option"

definition empty_users :: users_object where
  "empty_users = \<lparr>own = Map.empty, proto = None\<rparr>"

text \<open>The property names of \<open>Object.prototype\<close>.\<close>

definition object_prototype_keys :: "string list" where
  "object_prototype_keys =
     [''constructor'', ''__defineGetter__'', ''__defineSetter__'', ''hasOwnProperty'',
      ''__lookupGetter__'', ''__lookupSetter__'', ''isPrototypeOf'',
      ''propertyIsEnumerable'', ''toString'', ''valueOf'', ''__proto__'',
      ''toLocaleString'']"

definition object_prototype_get :: "string \<Rightarrow> js_value" where
  "object_prototype_get k = (if k \<in> set object_prototype_keys then Builtin else Undefined)"

text \<open>The property read \<open>users[k]\<close>.\<close>

definition get_prop :: "users_object \<Rightarrow> string \<Rightarrow> js_value" where
  "get_prop u k =
     (case own u k of
        Some r \<Rightarrow> UserEntry r
      | None \<Rightarrow>
          (case proto u of
             None \<Rightarrow> object_prototype_get k
           | Some p \<Rightarrow>
               if k = ''salt'' then Str (salt p)
               else if k = ''verifier'' then Str (verifier p)
               else if k = ''__proto__'' then UserEntry p
               else object_prototype_get k))"

text \<open>
  The assignment \<open>users[k] = r\<close>. The key \<open>__proto__\<close> is an accessor of
  \<open>Object.prototype\<close>: unless the object has an own property of that name, the
  assignment runs the setter, which replaces the prototype and creates no property.
\<close>

definition set_prop :: "users_object \<Rightarrow> string \<Rightarrow> user_record \<Rightarrow> users_object" where
  "set_prop u k r =
     (if k = ''__proto__'' \<and> own u k = None then u\<lparr>proto := Some r\<rparr>
      else u\<lparr>own := (own u)(k \<mapsto> r)\<rparr>)"

subsection \<open>The store: the variable \<open>users\<close> and the file at \<open>STORAGE_PATH\<close>\<close>

text \<open>
  \<open>users = None\<close> is \<open>null\<close>. \<open>disk = None\<close> is a file that the \<open>try\<close> block of
  \<open>getUser\<close> fails on: \<open>readFile\<close> or \<open>JSON.parse\<close> throws, or the text is the JSON
  \<open>null\<close>, on which \<open>users[username]\<close> throws. \<open>disk = Some m\<close> is a file that parses
  to an object with the entries \<open>m\<close>, which is what \<open>saveUser\<close> writes. A file that
  holds some other JSON value (a number, a string, an array) is outside the model.
\<close>

record store =
  users :: "users_object option"
  disk :: "(string \<rightharpoonup> user_record) option"

datatype js_error = TypeError | WriteError | EngineError

text \<open>
  What \<open>fsp.writeFile\<close> does: it completes, or its promise rejects and leaves the file
  in the given state.
\<close>

datatype write_outcome = Written | WriteFailed "(string \<rightharpoonup> user_record) option"

definition getUser :: "store \<Rightarrow> string \<Rightarrow> js_value \<times> store" where
  "getUser st username =
     (case users st of
        Some u \<Rightarrow> (get_prop u username, st)
      | None \<Rightarrow>
          (case disk st of
             Some m \<Rightarrow>
               (get_prop \<lparr>own = m, proto = None\<rparr> username,
                st\<lparr>users := Some \<lparr>own = m, proto = None\<rparr>\<rparr>)
           | None \<Rightarrow> (Null, st\<lparr>users := Some empty_users\<rparr>)))"

definition saveUser ::
  "write_outcome \<Rightarrow> store \<Rightarrow> string \<Rightarrow> string \<Rightarrow> string \<Rightarrow> (js_error + unit) \<times> store" where
  "saveUser wr st username slt vrf =
     (case users st of
        None \<Rightarrow> (Inl TypeError, st)
      | Some u \<Rightarrow>
          (let u' = set_prop u username \<lparr>salt = slt, verifier = vrf\<rparr>
           in case wr of
                Written \<Rightarrow> (Inr (), \<lparr>users = Some u', disk = Some (own u')\<rparr>)
              | WriteFailed f \<Rightarrow> (Inl WriteError, \<lparr>users = Some u', disk = f\<rparr>)))"

subsection \<open>Requests, responses, sessions\<close>

record request =
  http_method :: string
  path :: string
  query_user :: "string option"
  body_user :: "string option"
  body_salt :: "string option"
  body_verifier :: "string option"
  body_A :: "string option"
  body_M1 :: "string option"

datatype body = Empty | Text string | Json "(string \<times> string) list"

record response =
  code :: nat
  content_type :: "string option"
  body :: body

text \<open>
  The status codes that the package \<open>statuses\<close> gives for the six names the module uses
  (the package throws on a name it does not know; the module passes no other name).
\<close>

definition status :: "string \<Rightarrow> nat" where
  "status name =
     (if name = ''Bad Request'' then 400
      else if name = ''Unauthorized'' then 401
      else if name = ''Forbidden'' then 403
      else if name = ''Not Found'' then 404
      else if name = ''No Content'' then 204
      else if name = ''Internal Server Error'' then 500
      else 0)"

text \<open>\<open>res.status(c).send(t)\<close> and \<open>res.status(c).end(t)\<close> with a text.\<close>

definition send :: "nat \<Rightarrow> string \<Rightarrow> response" where
  "send c t = \<lparr>code = c, content_type = None, body = Text t\<rparr>"

text \<open>
  \<open>res.setHeader('Content-Type', 'application/json'); res.send(JSON.stringify(o))\<close>;
  \<open>JSON.stringify\<close> leaves out a property whose value is \<open>undefined\<close>.
\<close>

fun json_fields :: "(string \<times> string option) list \<Rightarrow> (string \<times> string) list" where
  "json_fields [] = []"
| "json_fields ((k, None) # kvs) = json_fields kvs"
| "json_fields ((k, Some v) # kvs) = (k, v) # json_fields kvs"

definition send_json :: "(string \<times> string option) list \<Rightarrow> response" where
  "send_json obj = \<lparr>code = 200, content_type = Some ''application/json'', body = Json (json_fields obj)\<rparr>"

text \<open>
  The properties of \<open>req.session\<close> that the module names: \<open>serverSession\<close> (the stored
  state of the SRP server session), \<open>loggedIn\<close>, and \<open>server\<close>, which \<open>auth\<close> deletes.
  \<open>None\<close> is a property that is not there.
\<close>

record 'st session =
  serverSession :: "'st option"
  loggedIn :: "bool option"
  server :: "'st option"

definition new_session :: "'st session" where
  "new_session = \<lparr>serverSession = None, loggedIn = None, server = None\<rparr>"

subsection \<open>The SRP engine\<close>

text \<open>
  The class \<open>SRP6JavascriptServerSession\<close> comes from the package thinbus-srp and is a
  parameter of the model. \<open>step1 rnd username salt verifier\<close> stands for
  \<open>server.step1(username, user.salt, user.verifier)\<close> followed by
  \<open>server.toPrivateStoreState()\<close>: it gives \<open>B\<close> and the state to store, from the
  random draw \<open>rnd\<close> of the private value, or throws (\<open>None\<close>). \<open>step2 state A M1\<close>
  stands for \<open>server.fromPrivateStoreState(state)\<close> followed by \<open>server.step2(A, M1)\<close>:
  it gives \<open>M2\<close>, or throws (\<open>None\<close>) when the credentials are wrong.
\<close>

record ('st, 'r) engine =
  step1 :: "'r \<Rightarrow> string \<Rightarrow> string option \<Rightarrow> string option \<Rightarrow> (string \<times> 'st) option"
  step2 :: "'st \<Rightarrow> string \<Rightarrow> string \<Rightarrow> string option"

subsection \<open>The handlers\<close>

definition challenge ::
  "('st, 'r) engine \<Rightarrow> 'r \<Rightarrow> request \<Rightarrow> 'st session \<Rightarrow> store
     \<Rightarrow> (js_error + response) \<times> 'st session \<times> store" where
  "challenge eng rnd req sess st =
     (if http_method req \<noteq> ''GET'' \<or> absent (query_user req)
      then (Inr (send (status ''Bad Request'') ''Missing parameter or wrong method type''), sess, st)
      else
        (let username = str_of (query_user req);
             (user, st') = getUser st username
         in if \<not> truthy user
            then (Inr (send (status ''Not Found'') ''User not found''), sess, st')
            else
              (case step1 eng rnd username (get_salt user) (get_verifier user) of
                 None \<Rightarrow> (Inl EngineError, sess, st')
               | Some (B, state) \<Rightarrow>
                   (Inr (send_json [(''salt'', get_salt user), (''B'', Some B)]),
                    sess\<lparr>serverSession := Some state\<rparr>, st'))))"

definition auth ::
  "('st, 'r) engine \<Rightarrow> request \<Rightarrow> 'st session \<Rightarrow> (js_error + response) \<times> 'st session" where
  "auth eng req sess =
     (if http_method req \<noteq> ''POST'' \<or> absent (body_user req) \<or> absent (body_A req)
         \<or> absent (body_M1 req)
      then (Inr (send (status ''Bad Request'') ''Missing parameter or invalid method type''), sess)
      else
        (case serverSession sess of
           None \<Rightarrow> (Inr (send (status ''Forbidden'') ''Called ./auth before ./challenge''), sess)
         | Some state \<Rightarrow>
             (case step2 eng state (str_of (body_A req)) (str_of (body_M1 req)) of
                Some M2 \<Rightarrow>
                  (Inr (send_json [(''M2'', Some M2)]),
                   sess\<lparr>loggedIn := Some True, server := None\<rparr>)
              | None \<Rightarrow>
                  (Inr (send (status ''Unauthorized'') ''Invalid credentials''),
                   sess\<lparr>loggedIn := Some False\<rparr>))))"

definition register ::
  "write_outcome \<Rightarrow> request \<Rightarrow> store \<Rightarrow> (js_error + response) \<times> store" where
  "register wr req st =
     (if http_method req \<noteq> ''POST'' \<or> absent (body_user req) \<or> absent (body_salt req)
         \<or> absent (body_verifier req)
      then (Inr (send (status ''Bad Request'') ''Missing parameter or invalid method type''), st)
      else
        (let user = str_of (body_user req);
             (found, st') = getUser st user
         in if truthy found
            then (Inr (send (status ''Forbidden'') ''User already exists''), st')
            else
              (case saveUser wr st' user (str_of (body_salt req)) (str_of (body_verifier req)) of
                 (Inl err, st'') \<Rightarrow> (Inl err, st'')
               | (Inr u, st'') \<Rightarrow>
                   (Inr \<lparr>code = status ''No Content'', content_type = None, body = Empty\<rparr>, st''))))"

text \<open>\<open>onError\<close>: the 500 response with no body.\<close>

definition onError :: "js_error \<Rightarrow> response" where
  "onError err = \<lparr>code = status ''Internal Server Error'', content_type = None, body = Empty\<rparr>"

text \<open>
  \<open>handleRequest\<close>: the route by \<open>req.path\<close>; \<open>None\<close> is the call of \<open>next()\<close>, which
  leaves the request to the next handler.
\<close>

definition answer :: "js_error + response \<Rightarrow> response" where
  "answer r = (case r of Inl err \<Rightarrow> onError err | Inr res \<Rightarrow> res)"

definition handleRequest ::
  "('st, 'r) engine \<Rightarrow> 'r \<Rightarrow> write_outcome \<Rightarrow> request \<Rightarrow> 'st session \<Rightarrow> store
     \<Rightarrow> response option \<times> 'st session \<times> store" where
  "handleRequest eng rnd wr req sess st =
     (if path req = ''/challenge''
      then (case challenge eng rnd req sess st of (r, sess', st') \<Rightarrow> (Some (answer r), sess', st'))
      else if path req = ''/auth''
      then (case auth eng req sess of (r, sess') \<Rightarrow> (Some (answer r), sess', st))
      else if path req = ''/register''
      then (case register wr req st of (r, st') \<Rightarrow> (Some (answer r), sess, st'))
      else (None, sess, st))"

subsection \<open>Concrete requests and an engine to run them\<close>

text \<open>
  The requests the client of src/frontend/thinbus-srp-client.js sends:
  \<open>GET /challenge?user=u\<close>, \<open>POST /auth {user, A, M1}\<close> and
  \<open>POST /register {user, salt, verifier}\<close>.
\<close>

definition challenge_request :: "string \<Rightarrow> request" where
  "challenge_request u =
     \<lparr>http_method = ''GET'', path = ''/challenge'', query_user = Some u, body_user = None,
      body_salt = None, body_verifier = None, body_A = None, body_M1 = None\<rparr>"

definition auth_request :: "string \<Rightarrow> string \<Rightarrow> string \<Rightarrow> request" where
  "auth_request u a m1 =
     \<lparr>http_method = ''POST'', path = ''/auth'', query_user = None, body_user = Some u,
      body_salt = None, body_verifier = None, body_A = Some a, body_M1 = Some m1\<rparr>"

definition register_request :: "string \<Rightarrow> string \<Rightarrow> string \<Rightarrow> request" where
  "register_request u s v =
     \<lparr>http_method = ''POST'', path = ''/register'', query_user = None, body_user = Some u,
      body_salt = Some s, body_verifier = Some v, body_A = None, body_M1 = None\<rparr>"

text \<open>The state of a process that has served no request, with no readable file.\<close>

definition fresh_store :: store where
  "fresh_store = \<lparr>users = None, disk = None\<rparr>"

text \<open>A store with one registered user, loaded and written.\<close>

definition alice_store :: store where
  "alice_store =
     \<lparr>users = Some \<lparr>own = [''alice'' \<mapsto> \<lparr>salt = ''s1'', verifier = ''v1''\<rparr>], proto = None\<rparr>,
      disk = Some [''alice'' \<mapsto> \<lparr>salt = ''s1'', verifier = ''v1''\<rparr>]\<rparr>"

text \<open>
  An engine with the interface of the parameter, small enough to evaluate: the stored
  state is the verifier and the random draw, \<open>step1\<close> throws when the salt or the
  verifier is \<open>undefined\<close>, and \<open>step2\<close> accepts exactly the \<open>M1\<close> made of the verifier,
  the draw and \<open>A\<close>. It stands in for thinbus-srp where a theorem is applied to a
  concrete run; no theorem about the handlers depends on it.
\<close>

definition demo_engine :: "(string \<times> string, string) engine" where
  "demo_engine =
     \<lparr>step1 = (\<lambda>rnd username s v.
                 case s of
                   None \<Rightarrow> None
                 | Some s' \<Rightarrow> (case v of None \<Rightarrow> None | Some v' \<Rightarrow> Some (''B-'' @ rnd, (v', rnd)))),
      step2 = (\<lambda>state a m1.
                 if m1 = fst state @ snd state @ a then Some (''M2-'' @ m1) else None)\<rparr>"

section \<open>Facts about the values, the store and the responses\<close>

lemma absent_Some [simp]: "absent (Some s) = (s = [])"
  by (simp add: absent_def)

lemma absent_None [simp]: "absent None"
  by (simp add: absent_def)

lemma str_of_Some [simp]: "str_of (Some s) = s"
  by (simp add: str_of_def)

lemma status_codes [simp]:
  "status ''Bad Request'' = 400" "status ''Unauthorized'' = 401" "status ''Forbidden'' = 403"
  "status ''Not Found'' = 404" "status ''No Content'' = 204"
  "status ''Internal Server Error'' = 500"
  by (simp_all add: status_def)

lemma code_send [simp]: "code (send c t) = c"
  by (simp add: send_def)

lemma answer_Inr [simp]: "answer (Inr res) = res"
  by (simp add: answer_def)

lemma answer_Inl [simp]: "code (answer (Inl err)) = 500"
  by (simp add: answer_def onError_def)

lemma code_send_json [simp]: "code (send_json obj) = 200"
  by (simp add: send_json_def)

text \<open>An assignment is read back; it changes no other key unless it replaces the prototype.\<close>

lemma get_prop_set_prop_same: "get_prop (set_prop u k r) k = UserEntry r"
  by (auto simp: get_prop_def set_prop_def)

lemma get_prop_set_prop_other:
  "k \<noteq> k' \<Longrightarrow> k \<noteq> ''__proto__'' \<Longrightarrow> get_prop (set_prop u k r) k' = get_prop u k'"
  by (auto simp: get_prop_def set_prop_def split: option.splits)

text \<open>
  With \<open>Object.prototype\<close> as the prototype, a lookup is truthy for the own properties and
  for the names that \<open>Object.prototype\<close> has; the key \<open>__proto__\<close> is truthy in every object.
\<close>

lemma truthy_get_prop:
  "proto u = None \<Longrightarrow> truthy (get_prop u k) \<longleftrightarrow> own u k \<noteq> None \<or> k \<in> set object_prototype_keys"
  by (auto simp: get_prop_def object_prototype_get_def split: option.splits)

lemma truthy_get_prop_proto: "truthy (get_prop u ''__proto__'')"
  by (simp add: get_prop_def object_prototype_get_def object_prototype_keys_def
      split: option.splits)

lemma getUser_disk: "disk (snd (getUser st k)) = disk st"
  by (auto simp: getUser_def split: option.splits)

lemma getUser_again:
  "truthy (fst (getUser st k)) \<Longrightarrow> getUser (snd (getUser st k)) k = getUser st k"
  by (auto simp: getUser_def split: option.splits)

lemma getUser_view:
  assumes "fst (getUser st k) = UserEntry r"
  shows "\<exists>u. getUser st k' = (get_prop u k', st\<lparr>users := Some u\<rparr>) \<and> get_prop u k = UserEntry r"
  using assms by (auto simp: getUser_def split: option.splits)

lemma saveUser_users:
  "users st = Some u \<Longrightarrow>
     users (snd (saveUser wr st k s v)) = Some (set_prop u k \<lparr>salt = s, verifier = v\<rparr>)"
  by (simp add: saveUser_def Let_def split: write_outcome.splits)

text \<open>
  A registration that is answered with 204 has found no user of that name, has assigned
  the record and has written the own properties of \<open>users\<close> to the file.
\<close>

lemma register_success:
  assumes "register wr req st = (Inr res, st')" and "code res = 204"
  shows "\<exists>u. users (snd (getUser st (str_of (body_user req)))) = Some u
           \<and> \<not> truthy (fst (getUser st (str_of (body_user req))))
           \<and> st' = \<lparr>users = Some (set_prop u (str_of (body_user req))
                       \<lparr>salt = str_of (body_salt req), verifier = str_of (body_verifier req)\<rparr>),
                    disk = Some (own (set_prop u (str_of (body_user req))
                       \<lparr>salt = str_of (body_salt req), verifier = str_of (body_verifier req)\<rparr>))\<rparr>"
  using assms
  by (auto simp: register_def saveUser_def Let_def
      split: if_splits prod.splits option.splits sum.splits write_outcome.splits)

text \<open>After the 204, a lookup of the registered name gives the new record.\<close>

lemma register_read_after_write:
  assumes "register wr req st = (Inr res, st')" and "code res = 204"
  shows "getUser st' (str_of (body_user req))
     = (UserEntry \<lparr>salt = str_of (body_salt req), verifier = str_of (body_verifier req)\<rparr>, st')"
proof -
  from register_success [OF assms] obtain u where
    "st' = \<lparr>users = Some (set_prop u (str_of (body_user req))
                       \<lparr>salt = str_of (body_salt req), verifier = str_of (body_verifier req)\<rparr>),
            disk = Some (own (set_prop u (str_of (body_user req))
                       \<lparr>salt = str_of (body_salt req), verifier = str_of (body_verifier req)\<rparr>))\<rparr>"
    by blast
  then show ?thesis
    by (simp add: getUser_def get_prop_set_prop_same)
qed

text \<open>No registration changes or removes a record that a lookup finds.\<close>

lemma register_keeps_entries:
  assumes "fst (getUser st k) = UserEntry r"
  shows "fst (getUser (snd (register wr req st)) k) = UserEntry r"
proof -
  let ?name = "str_of (body_user req)"
  from getUser_view [OF assms, of ?name] obtain u where
    look: "getUser st ?name = (get_prop u ?name, st\<lparr>users := Some u\<rparr>)"
    and entry: "get_prop u k = UserEntry r"
    by blast
  show ?thesis
  proof (cases "http_method req \<noteq> ''POST'' \<or> absent (body_user req) \<or> absent (body_salt req)
      \<or> absent (body_verifier req)")
    case True
    then have "snd (register wr req st) = st"
      by (simp add: register_def)
    with assms show ?thesis
      by simp
  next
    case False
    show ?thesis
    proof (cases "truthy (get_prop u ?name)")
      case True
      with False look have "snd (register wr req st) = st\<lparr>users := Some u\<rparr>"
        by (simp add: register_def)
      with entry show ?thesis
        by (simp add: getUser_def)
    next
      case unknown: False
      with entry have other: "?name \<noteq> k"
        by auto
      from unknown truthy_get_prop_proto [of u] have plain: "?name \<noteq> ''__proto__''"
        by auto
      from False look unknown
      have "snd (register wr req st) =
          snd (saveUser wr (st\<lparr>users := Some u\<rparr>) ?name (str_of (body_salt req))
                 (str_of (body_verifier req)))"
        by (simp add: register_def split: prod.splits sum.splits)
      then have "users (snd (register wr req st)) =
          Some (set_prop u ?name \<lparr>salt = str_of (body_salt req),
                                   verifier = str_of (body_verifier req)\<rparr>)"
        by (simp add: saveUser_users)
      then show ?thesis
        using get_prop_set_prop_other [OF other plain] entry by (simp add: getUser_def)
    qed
  qed
qed

text \<open>
  Keys are compared character by character: after alice has registered on the fresh
  store, the lookup of Alice finds nothing.
\<close>

lemma lookup_is_case_sensitive:
  "fst (getUser (snd (register Written (register_request ''alice'' ''s1'' ''v1'') fresh_store))
      ''Alice'') = Undefined"
  by (simp add: register_def getUser_def saveUser_def set_prop_def get_prop_def
      object_prototype_get_def object_prototype_keys_def empty_users_def fresh_store_def
      register_request_def Let_def)

text \<open>A name whose lookup is falsy gets the 404, and the session is left as it was.\<close>

lemma challenge_unknown_user:
  assumes "http_method req = ''GET''" and "\<not> absent (query_user req)"
    and "\<not> truthy (fst (getUser st (str_of (query_user req))))"
  shows "challenge eng rnd req sess st =
           (Inr (send 404 ''User not found''), sess, snd (getUser st (str_of (query_user req))))"
  using assms by (auto simp: challenge_def Let_def split: prod.splits)

section \<open>The claims\<close>

subsection \<open>C1: a successful \<open>auth\<close> and its replay\<close>

text \<open>
  C1 says that a successful \<open>auth\<close> deletes the stored state of the SRP session from the
  session, so that the same request (same user, A, M1) sent again on that session is
  answered with 403. The code does not do that: its statement
  \<open>delete req.session.server\<close> names a property that nothing sets, and
  \<open>req.session.serverSession\<close> stays. What the code does: whenever \<open>auth\<close> answers with the
  200 of a success, the stored state is still in the session afterwards, and the same
  request on that session is answered with the same 200 and the same \<open>M2\<close> again.
\<close>

theorem auth_success_leaves_serverSession:
  assumes "auth eng req sess = (Inr res, sess')" and "code res = 200"
  shows "serverSession sess' = serverSession sess \<and> serverSession sess' \<noteq> None
         \<and> auth eng req sess' = (Inr res, sess')"
  using assms by (auto simp: auth_def split: if_splits option.splits)

text \<open>
  A run: alice is registered, \<open>challenge\<close> stores the state, \<open>auth\<close> with the right \<open>M1\<close>
  succeeds, and the replay succeeds as well.
\<close>

theorem auth_success_leaves_serverSession_witness:
  "auth demo_engine (auth_request ''alice'' ''A1'' ''v1r1A1'')
       (fst (snd (challenge demo_engine ''r1'' (challenge_request ''alice'') new_session alice_store)))
     = (Inr (send_json [(''M2'', Some ''M2-v1r1A1'')]),
        \<lparr>serverSession = Some (''v1'', ''r1''), loggedIn = Some True, server = None\<rparr>)
   \<and> code (send_json [(''M2'', Some ''M2-v1r1A1'')]) = 200
   \<and> auth demo_engine (auth_request ''alice'' ''A1'' ''v1r1A1'')
        \<lparr>serverSession = Some (''v1'', ''r1''), loggedIn = Some True, server = None\<rparr>
     = (Inr (send_json [(''M2'', Some ''M2-v1r1A1'')]),
        \<lparr>serverSession = Some (''v1'', ''r1''), loggedIn = Some True, server = None\<rparr>)"
proof -
  have pending: "fst (snd (challenge demo_engine ''r1'' (challenge_request ''alice'') new_session
        alice_store))
      = \<lparr>serverSession = Some (''v1'', ''r1''), loggedIn = None, server = None\<rparr>"
    by (simp add: Let_def challenge_def getUser_def get_prop_def alice_store_def demo_engine_def
        challenge_request_def new_session_def)
  have first: "auth demo_engine (auth_request ''alice'' ''A1'' ''v1r1A1'')
       (fst (snd (challenge demo_engine ''r1'' (challenge_request ''alice'') new_session alice_store)))
     = (Inr (send_json [(''M2'', Some ''M2-v1r1A1'')]),
        \<lparr>serverSession = Some (''v1'', ''r1''), loggedIn = Some True, server = None\<rparr>)"
    unfolding pending by (simp add: auth_def demo_engine_def auth_request_def)
  have ok: "code (send_json [(''M2'', Some ''M2-v1r1A1'')]) = 200"
    by simp
  from auth_success_leaves_serverSession [OF first ok] first ok show ?thesis
    by blast
qed

subsection \<open>C2: registering a name twice\<close>

text \<open>
  C2: when the lookup of a username finds a record in the store, a \<open>register\<close> request for
  that username, with any salt and verifier that are present, is answered with 403
  "User already exists"; the lookup of that username gives the same record afterwards,
  the file is not written, and if the store is the result of a registration of that
  username that was answered with 204, the record is the salt and verifier of that
  registration.
\<close>

theorem register_existing_user_conflict:
  assumes "http_method req = ''POST''" and "\<not> absent (body_user req)"
    and "\<not> absent (body_salt req)" and "\<not> absent (body_verifier req)"
    and "fst (getUser st (str_of (body_user req))) = UserEntry r"
  shows "fst (register wr req st) = Inr (send 403 ''User already exists'')
       \<and> fst (getUser (snd (register wr req st)) (str_of (body_user req))) = UserEntry r
       \<and> disk (snd (register wr req st)) = disk st
       \<and> (\<forall>wr0 req0 st0 res0.
             register wr0 req0 st0 = (Inr res0, st) \<and> code res0 = 204
               \<and> body_user req0 = body_user req \<longrightarrow>
             r = \<lparr>salt = str_of (body_salt req0), verifier = str_of (body_verifier req0)\<rparr>)"
proof -
  from assms(5) have found: "truthy (fst (getUser st (str_of (body_user req))))"
    by simp
  obtain v st1 where g: "getUser st (str_of (body_user req)) = (v, st1)"
    by (cases "getUser st (str_of (body_user req))")
  with assms(5) have v: "v = UserEntry r"
    by simp
  from assms(1-4) g v have reg: "register wr req st = (Inr (send 403 ''User already exists''), st1)"
    by (simp add: register_def)
  from getUser_again [OF found] g v have "getUser st1 (str_of (body_user req)) = (UserEntry r, st1)"
    by simp
  moreover from getUser_disk [of st "str_of (body_user req)"] g have "disk st1 = disk st"
    by simp
  moreover have "r = \<lparr>salt = str_of (body_salt req0), verifier = str_of (body_verifier req0)\<rparr>"
    if "register wr0 req0 st0 = (Inr res0, st)" and "code res0 = 204"
      and "body_user req0 = body_user req" for wr0 req0 st0 res0
    using register_read_after_write [OF that(1,2)] that(3) assms(5) by simp
  ultimately show ?thesis
    using reg by auto
qed

text \<open>
  A run from the fresh store: alice registers with (s1, v1), then again with (s2, v2);
  the second request gets the 403 and the record stays (s1, v1).
\<close>

theorem register_existing_user_conflict_witness:
  "http_method (register_request ''alice'' ''s2'' ''v2'') = ''POST''
   \<and> \<not> absent (body_user (register_request ''alice'' ''s2'' ''v2''))
   \<and> \<not> absent (body_salt (register_request ''alice'' ''s2'' ''v2''))
   \<and> \<not> absent (body_verifier (register_request ''alice'' ''s2'' ''v2''))
   \<and> fst (register Written (register_request ''alice'' ''s1'' ''v1'') fresh_store)
       = Inr \<lparr>code = 204, content_type = None, body = Empty\<rparr>
   \<and> fst (getUser (snd (register Written (register_request ''alice'' ''s1'' ''v1'') fresh_store))
          ''alice'') = UserEntry \<lparr>salt = ''s1'', verifier = ''v1''\<rparr>
   \<and> fst (register Written (register_request ''alice'' ''s2'' ''v2'')
          (snd (register Written (register_request ''alice'' ''s1'' ''v1'') fresh_store)))
       = Inr (send 403 ''User already exists'')
   \<and> fst (getUser (snd (register Written (register_request ''alice'' ''s2'' ''v2'')
          (snd (register Written (register_request ''alice'' ''s1'' ''v1'') fresh_store)))) ''alice'')
       = UserEntry \<lparr>salt = ''s1'', verifier = ''v1''\<rparr>"
proof -
  let ?first = "register_request ''alice'' ''s1'' ''v1''"
  let ?second = "register_request ''alice'' ''s2'' ''v2''"
  let ?st1 = "snd (register Written ?first fresh_store)"
  have req: "http_method ?second = ''POST''" "\<not> absent (body_user ?second)"
    "\<not> absent (body_salt ?second)" "\<not> absent (body_verifier ?second)"
    by (simp_all add: register_request_def)
  have name: "str_of (body_user ?second) = ''alice''"
    by (simp add: register_request_def)
  have first: "register Written ?first fresh_store =
      (Inr \<lparr>code = 204, content_type = None, body = Empty\<rparr>,
       \<lparr>users = Some \<lparr>own = [''alice'' \<mapsto> \<lparr>salt = ''s1'', verifier = ''v1''\<rparr>], proto = None\<rparr>,
         disk = Some [''alice'' \<mapsto> \<lparr>salt = ''s1'', verifier = ''v1''\<rparr>]\<rparr>)"
    by (simp add: register_def getUser_def saveUser_def set_prop_def empty_users_def
        fresh_store_def register_request_def Let_def)
  have stored: "fst (getUser ?st1 (str_of (body_user ?second)))
      = UserEntry \<lparr>salt = ''s1'', verifier = ''v1''\<rparr>"
    unfolding name first by (simp add: getUser_def get_prop_def)
  from register_existing_user_conflict [OF req stored, of Written] req stored first
  show ?thesis
    unfolding name by simp
qed

subsection \<open>C3: \<open>auth\<close> without a pending challenge\<close>

text \<open>
  C3: for an \<open>auth\<close> request with all three fields present, a session that holds no
  stored SRP state (never challenged, or a new session after the old one expired) is
  answered with 403 "Called ./auth before ./challenge" and is left as it was. The two
  failures are told apart by the status code: the answer is 403 exactly when the session
  holds no state, and 401 exactly when it holds one and \<open>step2\<close> rejects the credentials.
\<close>

theorem auth_without_challenge:
  assumes "http_method req = ''POST''" and "\<not> absent (body_user req)"
    and "\<not> absent (body_A req)" and "\<not> absent (body_M1 req)"
  shows "(serverSession sess = None \<longrightarrow>
            auth eng req sess = (Inr (send 403 ''Called ./auth before ./challenge''), sess))
       \<and> (code (answer (fst (auth eng req sess))) = 403 \<longleftrightarrow> serverSession sess = None)
       \<and> (code (answer (fst (auth eng req sess))) = 401 \<longleftrightarrow>
            (\<exists>state. serverSession sess = Some state
               \<and> step2 eng state (str_of (body_A req)) (str_of (body_M1 req)) = None))"
  using assms by (auto simp: auth_def answer_def split: if_splits option.splits)

theorem auth_without_challenge_witness:
  "http_method (auth_request ''alice'' ''A1'' ''v1r1A1'') = ''POST''
   \<and> \<not> absent (body_user (auth_request ''alice'' ''A1'' ''v1r1A1''))
   \<and> \<not> absent (body_A (auth_request ''alice'' ''A1'' ''v1r1A1''))
   \<and> \<not> absent (body_M1 (auth_request ''alice'' ''A1'' ''v1r1A1''))
   \<and> serverSession (new_session :: (string \<times> string) session) = None
   \<and> auth demo_engine (auth_request ''alice'' ''A1'' ''v1r1A1'') new_session
       = (Inr (send 403 ''Called ./auth before ./challenge''), new_session)
   \<and> code (answer (fst (auth demo_engine (auth_request ''alice'' ''A1'' ''v1r1A1'') new_session))) = 403
   \<and> code (answer (fst (auth demo_engine (auth_request ''alice'' ''A1'' ''v1r1A1'') new_session)))
       \<noteq> 401"
proof -
  let ?req = "auth_request ''alice'' ''A1'' ''v1r1A1''"
  have req: "http_method ?req = ''POST''" "\<not> absent (body_user ?req)"
    "\<not> absent (body_A ?req)" "\<not> absent (body_M1 ?req)"
    by (simp_all add: auth_request_def)
  have none: "serverSession (new_session :: (string \<times> string) session) = None"
    by (simp add: new_session_def)
  from auth_without_challenge [OF req, of new_session demo_engine] req none
  show ?thesis by (simp add: answer_def)
qed

subsection \<open>C4: a failed \<open>auth\<close> keeps the pending challenge\<close>

text \<open>
  C4: when \<open>step2\<close> rejects \<open>M1\<close>, \<open>auth\<close> answers with 401 "Invalid credentials", sets
  \<open>loggedIn\<close> to false and changes nothing else in the session: the stored state stays.
  A retry on the same session therefore reaches \<open>step2\<close> with that state again: its
  answer is the 200 with \<open>M2\<close> or the 401, as \<open>step2\<close> decides, and never the 403.
\<close>

theorem auth_failure_keeps_challenge:
  assumes "http_method req = ''POST''" and "\<not> absent (body_user req)"
    and "\<not> absent (body_A req)" and "\<not> absent (body_M1 req)"
    and "serverSession sess = Some state"
    and "step2 eng state (str_of (body_A req)) (str_of (body_M1 req)) = None"
  shows "auth eng req sess = (Inr (send 401 ''Invalid credentials''), sess\<lparr>loggedIn := Some False\<rparr>)
       \<and> serverSession (snd (auth eng req sess)) = Some state
       \<and> loggedIn (snd (auth eng req sess)) = Some False
       \<and> (\<forall>retry. http_method retry = ''POST'' \<and> \<not> absent (body_user retry)
              \<and> \<not> absent (body_A retry) \<and> \<not> absent (body_M1 retry) \<longrightarrow>
            fst (auth eng retry (snd (auth eng req sess))) =
              (case step2 eng state (str_of (body_A retry)) (str_of (body_M1 retry)) of
                 Some M2 \<Rightarrow> Inr (send_json [(''M2'', Some M2)])
               | None \<Rightarrow> Inr (send 401 ''Invalid credentials'')))"
  using assms by (auto simp: auth_def split: option.splits)

text \<open>A run: a wrong \<open>M1\<close> is refused, the right one succeeds on the same session.\<close>

theorem auth_failure_keeps_challenge_witness:
  "http_method (auth_request ''alice'' ''A1'' ''wrong'') = ''POST''
   \<and> \<not> absent (body_user (auth_request ''alice'' ''A1'' ''wrong''))
   \<and> \<not> absent (body_A (auth_request ''alice'' ''A1'' ''wrong''))
   \<and> \<not> absent (body_M1 (auth_request ''alice'' ''A1'' ''wrong''))
   \<and> serverSession \<lparr>serverSession = Some (''v1'', ''r1''), loggedIn = Some True, server = None\<rparr>
        = Some (''v1'', ''r1'')
   \<and> step2 demo_engine (''v1'', ''r1'') (str_of (body_A (auth_request ''alice'' ''A1'' ''wrong'')))
        (str_of (body_M1 (auth_request ''alice'' ''A1'' ''wrong''))) = None
   \<and> auth demo_engine (auth_request ''alice'' ''A1'' ''wrong'')
        \<lparr>serverSession = Some (''v1'', ''r1''), loggedIn = Some True, server = None\<rparr>
       = (Inr (send 401 ''Invalid credentials''),
          \<lparr>serverSession = Some (''v1'', ''r1''), loggedIn = Some False, server = None\<rparr>)
   \<and> fst (auth demo_engine (auth_request ''alice'' ''A1'' ''v1r1A1'')
          (snd (auth demo_engine (auth_request ''alice'' ''A1'' ''wrong'')
             \<lparr>serverSession = Some (''v1'', ''r1''), loggedIn = Some True, server = None\<rparr>)))
       = Inr (send_json [(''M2'', Some ''M2-v1r1A1'')])"
proof -
  let ?bad = "auth_request ''alice'' ''A1'' ''wrong''"
  let ?good = "auth_request ''alice'' ''A1'' ''v1r1A1''"
  let ?sess = "\<lparr>serverSession = Some (''v1'', ''r1''), loggedIn = Some True, server = None\<rparr>"
  have req: "http_method ?bad = ''POST''" "\<not> absent (body_user ?bad)"
    "\<not> absent (body_A ?bad)" "\<not> absent (body_M1 ?bad)"
    by (simp_all add: auth_request_def)
  have pending: "serverSession ?sess = Some (''v1'', ''r1'')"
    by simp
  have wrong: "step2 demo_engine (''v1'', ''r1'') (str_of (body_A ?bad)) (str_of (body_M1 ?bad)) = None"
    by (simp add: demo_engine_def auth_request_def)
  have retry: "http_method ?good = ''POST'' \<and> \<not> absent (body_user ?good)
      \<and> \<not> absent (body_A ?good) \<and> \<not> absent (body_M1 ?good)"
    by (simp add: auth_request_def)
  have right: "step2 demo_engine (''v1'', ''r1'') (str_of (body_A ?good)) (str_of (body_M1 ?good))
      = Some ''M2-v1r1A1''"
    by (simp add: demo_engine_def auth_request_def)
  note fact = auth_failure_keeps_challenge [OF req pending wrong]
  from fact have "\<forall>retry. http_method retry = ''POST'' \<and> \<not> absent (body_user retry)
        \<and> \<not> absent (body_A retry) \<and> \<not> absent (body_M1 retry) \<longrightarrow>
      fst (auth demo_engine retry (snd (auth demo_engine ?bad ?sess))) =
        (case step2 demo_engine (''v1'', ''r1'') (str_of (body_A retry)) (str_of (body_M1 retry)) of
           Some M2 \<Rightarrow> Inr (send_json [(''M2'', Some M2)])
         | None \<Rightarrow> Inr (send 401 ''Invalid credentials''))"
    by (rule conjunct2 [OF conjunct2 [OF conjunct2]])
  from this [rule_format, OF retry]
  have again: "fst (auth demo_engine ?good (snd (auth demo_engine ?bad ?sess)))
      = Inr (send_json [(''M2'', Some ''M2-v1r1A1'')])"
    unfolding right by simp
  from fact have failed: "auth demo_engine ?bad ?sess
      = (Inr (send 401 ''Invalid credentials''),
         \<lparr>serverSession = Some (''v1'', ''r1''), loggedIn = Some False, server = None\<rparr>)"
    by simp
  from req pending wrong failed again show ?thesis
    by blast
qed

subsection \<open>C5: what a successful \<open>register\<close> writes\<close>

text \<open>
  C5 says that every \<open>register\<close> request answered with 204 has written the whole mapping,
  the new record included, to the file. For requests served one after another, the
  lemmas \<open>register_success\<close> and \<open>register_read_after_write\<close> show the part that holds: the
  file is written before the
  204, it holds the own properties of \<open>users\<close>, and the lookup of the name gives the new
  record afterwards. The new record is not always among the own properties: on a
  process that has not loaded the store and finds no readable file, the first lookup
  answers \<open>null\<close> for every name, so a registration of the name \<open>__proto__\<close> goes through;
  the assignment \<open>users['__proto__'] = {salt, verifier}\<close> replaces the prototype of
  \<open>users\<close> and creates no property, and the file that is written before the 204 holds no
  record at all.
\<close>

theorem register_proto_key_not_written:
  assumes "users st = None" and "disk st = None"
    and "http_method req = ''POST''" and "body_user req = Some ''__proto__''"
    and "\<not> absent (body_salt req)" and "\<not> absent (body_verifier req)"
  shows "register Written req st =
          (Inr \<lparr>code = 204, content_type = None, body = Empty\<rparr>,
           \<lparr>users = Some \<lparr>own = Map.empty,
                           proto = Some \<lparr>salt = str_of (body_salt req),
                                         verifier = str_of (body_verifier req)\<rparr>\<rparr>,
             disk = Some Map.empty\<rparr>)"
  using assms
  by (simp add: register_def getUser_def saveUser_def set_prop_def empty_users_def Let_def)

theorem register_proto_key_not_written_witness:
  "users fresh_store = None \<and> disk fresh_store = None
   \<and> http_method (register_request ''__proto__'' ''s1'' ''v1'') = ''POST''
   \<and> body_user (register_request ''__proto__'' ''s1'' ''v1'') = Some ''__proto__''
   \<and> \<not> absent (body_salt (register_request ''__proto__'' ''s1'' ''v1''))
   \<and> \<not> absent (body_verifier (register_request ''__proto__'' ''s1'' ''v1''))
   \<and> register Written (register_request ''__proto__'' ''s1'' ''v1'') fresh_store =
       (Inr \<lparr>code = 204, content_type = None, body = Empty\<rparr>,
        \<lparr>users = Some \<lparr>own = Map.empty, proto = Some \<lparr>salt = ''s1'', verifier = ''v1''\<rparr>\<rparr>,
          disk = Some Map.empty\<rparr>)"
proof -
  let ?req = "register_request ''__proto__'' ''s1'' ''v1''"
  have st: "users fresh_store = None" "disk fresh_store = None"
    by (simp_all add: fresh_store_def)
  have req: "http_method ?req = ''POST''" "body_user ?req = Some ''__proto__''"
    "\<not> absent (body_salt ?req)" "\<not> absent (body_verifier ?req)"
    by (simp_all add: register_request_def)
  have fields: "str_of (body_salt ?req) = ''s1''" "str_of (body_verifier ?req) = ''v1''"
    by (simp_all add: register_request_def)
  from register_proto_key_not_written [OF st req] st req show ?thesis
    unfolding fields by simp
qed

subsection \<open>C6: the last challenge wins\<close>

text \<open>
  C6: the session has one slot for the SRP state (the field \<open>serverSession\<close>), so it
  holds at most one. A \<open>challenge\<close> for a user whose lookup finds a record answers with
  the salt and \<open>B\<close> and stores the new state of \<open>step1\<close> in that slot, whatever the slot
  held before; an \<open>auth\<close> that follows is decided by \<open>step2\<close> on the new state.
\<close>

theorem challenge_overwrites_pending_state:
  assumes "http_method req = ''GET''" and "\<not> absent (query_user req)"
    and "fst (getUser st (str_of (query_user req))) = UserEntry r"
    and "step1 eng rnd (str_of (query_user req)) (Some (salt r)) (Some (verifier r)) = Some (B, fresh)"
  shows "fst (challenge eng rnd req sess st) = Inr (send_json [(''salt'', Some (salt r)), (''B'', Some B)])
       \<and> fst (snd (challenge eng rnd req sess st)) = sess\<lparr>serverSession := Some fresh\<rparr>
       \<and> fst (snd (challenge eng rnd req (sess\<lparr>serverSession := prior\<rparr>) st))
           = sess\<lparr>serverSession := Some fresh\<rparr>
       \<and> (\<forall>areq. http_method areq = ''POST'' \<and> \<not> absent (body_user areq)
              \<and> \<not> absent (body_A areq) \<and> \<not> absent (body_M1 areq) \<longrightarrow>
            fst (auth eng areq (fst (snd (challenge eng rnd req (sess\<lparr>serverSession := prior\<rparr>) st)))) =
              (case step2 eng fresh (str_of (body_A areq)) (str_of (body_M1 areq)) of
                 Some M2 \<Rightarrow> Inr (send_json [(''M2'', Some M2)])
               | None \<Rightarrow> Inr (send 401 ''Invalid credentials'')))"
  using assms
  by (auto simp: challenge_def auth_def Let_def split: prod.splits option.splits)

text \<open>
  A run: the session holds the state of an earlier challenge (draw r0); after a new
  challenge (draw r1), the \<open>M1\<close> for the earlier one is refused and the \<open>M1\<close> for the new
  one succeeds.
\<close>

theorem challenge_overwrites_pending_state_witness:
  "http_method (challenge_request ''alice'') = ''GET''
   \<and> \<not> absent (query_user (challenge_request ''alice''))
   \<and> fst (getUser alice_store ''alice'') = UserEntry \<lparr>salt = ''s1'', verifier = ''v1''\<rparr>
   \<and> step1 demo_engine ''r1'' ''alice'' (Some ''s1'') (Some ''v1'') = Some (''B-r1'', (''v1'', ''r1''))
   \<and> fst (snd (challenge demo_engine ''r1'' (challenge_request ''alice'')
          \<lparr>serverSession = Some (''v1'', ''r0''), loggedIn = None, server = None\<rparr> alice_store))
       = \<lparr>serverSession = Some (''v1'', ''r1''), loggedIn = None, server = None\<rparr>
   \<and> fst (auth demo_engine (auth_request ''alice'' ''A1'' ''v1r0A1'')
        (fst (snd (challenge demo_engine ''r1'' (challenge_request ''alice'')
          \<lparr>serverSession = Some (''v1'', ''r0''), loggedIn = None, server = None\<rparr> alice_store))))
       = Inr (send 401 ''Invalid credentials'')
   \<and> fst (auth demo_engine (auth_request ''alice'' ''A1'' ''v1r1A1'')
        (fst (snd (challenge demo_engine ''r1'' (challenge_request ''alice'')
          \<lparr>serverSession = Some (''v1'', ''r0''), loggedIn = None, server = None\<rparr> alice_store))))
       = Inr (send_json [(''M2'', Some ''M2-v1r1A1'')])"
proof -
  let ?creq = "challenge_request ''alice''"
  let ?r = "\<lparr>salt = ''s1'', verifier = ''v1''\<rparr>"
  let ?sess = "\<lparr>serverSession = None, loggedIn = None, server = None\<rparr> :: (string \<times> string) session"
  let ?old = "auth_request ''alice'' ''A1'' ''v1r0A1''"
  let ?new = "auth_request ''alice'' ''A1'' ''v1r1A1''"
  have req: "http_method ?creq = ''GET''" "\<not> absent (query_user ?creq)"
    by (simp_all add: challenge_request_def)
  have name: "str_of (query_user ?creq) = ''alice''"
    by (simp add: challenge_request_def)
  have found: "fst (getUser alice_store (str_of (query_user ?creq))) = UserEntry ?r"
    unfolding name by (simp add: getUser_def get_prop_def alice_store_def)
  have drawn: "step1 demo_engine ''r1'' (str_of (query_user ?creq)) (Some (salt ?r))
      (Some (verifier ?r)) = Some (''B-r1'', (''v1'', ''r1''))"
    by (simp add: demo_engine_def)
  note fact = challenge_overwrites_pending_state [OF req found drawn,
      of ?sess "Some (''v1'', ''r0'')"]
  from fact have stored: "fst (snd (challenge demo_engine ''r1'' ?creq
        \<lparr>serverSession = Some (''v1'', ''r0''), loggedIn = None, server = None\<rparr> alice_store))
      = \<lparr>serverSession = Some (''v1'', ''r1''), loggedIn = None, server = None\<rparr>"
    by simp
  from fact have later: "\<forall>areq. http_method areq = ''POST'' \<and> \<not> absent (body_user areq)
        \<and> \<not> absent (body_A areq) \<and> \<not> absent (body_M1 areq) \<longrightarrow>
      fst (auth demo_engine areq (fst (snd (challenge demo_engine ''r1'' ?creq
        (?sess\<lparr>serverSession := Some (''v1'', ''r0'')\<rparr>) alice_store)))) =
        (case step2 demo_engine (''v1'', ''r1'') (str_of (body_A areq)) (str_of (body_M1 areq)) of
           Some M2 \<Rightarrow> Inr (send_json [(''M2'', Some M2)])
         | None \<Rightarrow> Inr (send 401 ''Invalid credentials''))"
    by (rule conjunct2 [OF conjunct2 [OF conjunct2]])
  have old: "http_method ?old = ''POST'' \<and> \<not> absent (body_user ?old)
      \<and> \<not> absent (body_A ?old) \<and> \<not> absent (body_M1 ?old)"
    and new: "http_method ?new = ''POST'' \<and> \<not> absent (body_user ?new)
      \<and> \<not> absent (body_A ?new) \<and> \<not> absent (body_M1 ?new)"
    by (simp_all add: auth_request_def)
  have old_fails: "step2 demo_engine (''v1'', ''r1'') (str_of (body_A ?old)) (str_of (body_M1 ?old))
      = None"
    and new_passes: "step2 demo_engine (''v1'', ''r1'') (str_of (body_A ?new)) (str_of (body_M1 ?new))
      = Some ''M2-v1r1A1''"
    by (simp_all add: demo_engine_def auth_request_def)
  from later [rule_format, OF old] later [rule_format, OF new] stored req found drawn
  show ?thesis
    unfolding old_fails new_passes name by simp
qed

subsection \<open>C7: a missing or unreadable file\<close>

text \<open>
  When the store is not loaded and the file cannot be read, the first lookup does not
  fail: it answers \<open>null\<close> for every username and leaves the empty object in \<open>users\<close>, so
  a \<open>challenge\<close> is answered with 404, and a \<open>register\<close> request that is itself the first
  lookup is answered with 204 for every name. A \<open>register\<close> request that follows the
  lookup is answered with 204 and stores exactly the new record when its name is one
  that \<open>Object.prototype\<close> does not have.
\<close>

lemma missing_snapshot_lookup:
  assumes "users st = None" and "disk st = None"
  shows "getUser st u = (Null, st\<lparr>users := Some empty_users\<rparr>)
       \<and> (http_method creq = ''GET'' \<and> \<not> absent (query_user creq) \<longrightarrow>
            challenge eng rnd creq sess st =
              (Inr (send 404 ''User not found''), sess, st\<lparr>users := Some empty_users\<rparr>))
       \<and> (http_method req = ''POST'' \<and> \<not> absent (body_user req) \<and> \<not> absent (body_salt req)
            \<and> \<not> absent (body_verifier req)
            \<and> str_of (body_user req) \<notin> set object_prototype_keys \<longrightarrow>
            register Written req (snd (getUser st u)) =
              (Inr \<lparr>code = 204, content_type = None, body = Empty\<rparr>,
               \<lparr>users = Some \<lparr>own = [str_of (body_user req) \<mapsto>
                                        \<lparr>salt = str_of (body_salt req),
                                         verifier = str_of (body_verifier req)\<rparr>],
                               proto = None\<rparr>,
                 disk = Some [str_of (body_user req) \<mapsto>
                                \<lparr>salt = str_of (body_salt req),
                                 verifier = str_of (body_verifier req)\<rparr>]\<rparr>))
       \<and> (http_method req = ''POST'' \<and> \<not> absent (body_user req) \<and> \<not> absent (body_salt req)
            \<and> \<not> absent (body_verifier req) \<longrightarrow>
            fst (register Written req st) = Inr \<lparr>code = 204, content_type = None, body = Empty\<rparr>)"
  using assms
  by (auto simp: challenge_def register_def getUser_def saveUser_def set_prop_def get_prop_def
      object_prototype_get_def object_prototype_keys_def empty_users_def Let_def)

text \<open>
  C7 says that after the first lookup has found no readable file, the store is the
  empty mapping and the \<open>register\<close> requests that follow proceed against it as usual.
  The first half holds (\<open>missing_snapshot_lookup\<close>). The second does not hold for every
  name: the store is the object \<open>{}\<close>, whose lookup finds the members of
  \<open>Object.prototype\<close>, so a \<open>register\<close> request for such a name, although nothing was
  ever registered, is refused with 403 "User already exists"; no record is stored and
  the file is not written.
\<close>

theorem register_after_missing_snapshot_refuses_inherited_name:
  assumes "users st = None" and "disk st = None"
    and "k \<in> set object_prototype_keys"
    and "http_method req = ''POST''" and "body_user req = Some k"
    and "\<not> absent (body_salt req)" and "\<not> absent (body_verifier req)"
  shows "getUser st u = (Null, st\<lparr>users := Some empty_users\<rparr>)
       \<and> register wr req (snd (getUser st u)) =
           (Inr (send 403 ''User already exists''), st\<lparr>users := Some empty_users\<rparr>)
       \<and> disk (snd (register wr req (snd (getUser st u)))) = None"
proof -
  from assms(1,2) have first: "getUser st u = (Null, st\<lparr>users := Some empty_users\<rparr>)"
    by (simp add: getUser_def)
  from assms(3) have named: "k \<noteq> []"
    by (auto simp: object_prototype_keys_def)
  from assms(3) have "get_prop empty_users k = Builtin"
    by (simp add: get_prop_def object_prototype_get_def empty_users_def)
  then have "getUser (st\<lparr>users := Some empty_users\<rparr>) k = (Builtin, st\<lparr>users := Some empty_users\<rparr>)"
    by (simp add: getUser_def)
  with named assms(4-7)
  have "register wr req (st\<lparr>users := Some empty_users\<rparr>) =
      (Inr (send 403 ''User already exists''), st\<lparr>users := Some empty_users\<rparr>)"
    by (simp add: register_def)
  with first assms(2) show ?thesis
    by simp
qed

text \<open>
  A run from the fresh store: a \<open>challenge\<close> for alice triggers the first lookup, then
  the name constructor cannot be registered.
\<close>

theorem register_after_missing_snapshot_refuses_inherited_name_witness:
  "users fresh_store = None \<and> disk fresh_store = None
   \<and> ''constructor'' \<in> set object_prototype_keys
   \<and> http_method (register_request ''constructor'' ''s1'' ''v1'') = ''POST''
   \<and> body_user (register_request ''constructor'' ''s1'' ''v1'') = Some ''constructor''
   \<and> \<not> absent (body_salt (register_request ''constructor'' ''s1'' ''v1''))
   \<and> \<not> absent (body_verifier (register_request ''constructor'' ''s1'' ''v1''))
   \<and> snd (snd (challenge demo_engine ''r1'' (challenge_request ''alice'') new_session fresh_store))
       = snd (getUser fresh_store ''alice'')
   \<and> getUser fresh_store ''alice'' = (Null, \<lparr>users = Some empty_users, disk = None\<rparr>)
   \<and> register Written (register_request ''constructor'' ''s1'' ''v1'')
        (snd (getUser fresh_store ''alice''))
       = (Inr (send 403 ''User already exists''), \<lparr>users = Some empty_users, disk = None\<rparr>)"
proof -
  let ?req = "register_request ''constructor'' ''s1'' ''v1''"
  have st: "users fresh_store = None" "disk fresh_store = None"
    by (simp_all add: fresh_store_def)
  have key: "''constructor'' \<in> set object_prototype_keys"
    by (simp add: object_prototype_keys_def)
  have req: "http_method ?req = ''POST''" "body_user ?req = Some ''constructor''"
    "\<not> absent (body_salt ?req)" "\<not> absent (body_verifier ?req)"
    by (simp_all add: register_request_def)
  have upd: "fresh_store\<lparr>users := Some empty_users\<rparr> = \<lparr>users = Some empty_users, disk = None\<rparr>"
    by (simp add: fresh_store_def)
  have looked: "snd (snd (challenge demo_engine ''r1'' (challenge_request ''alice'') new_session
        fresh_store)) = snd (getUser fresh_store ''alice'')"
    by (simp add: challenge_def getUser_def fresh_store_def challenge_request_def Let_def)
  from register_after_missing_snapshot_refuses_inherited_name [OF st key req, of "''alice''" Written]
  have "getUser fresh_store ''alice'' = (Null, \<lparr>users = Some empty_users, disk = None\<rparr>)
      \<and> register Written ?req (snd (getUser fresh_store ''alice''))
          = (Inr (send 403 ''User already exists''), \<lparr>users = Some empty_users, disk = None\<rparr>)"
    unfolding upd by blast
  with st key req looked show ?thesis
    by blast
qed

subsection \<open>C8: \<open>challenge\<close> for a name that is not in the store\<close>

text \<open>
  C8 says that every username that is not in the store gets the 404 and no stored state.
  The lemma \<open>challenge_unknown_user\<close> shows this for the names whose lookup is falsy. It
  fails for the names of the members of \<open>Object.prototype\<close>: with the store loaded,
  \<open>users['constructor']\<close> is the inherited function, \<open>!user\<close> is false, and \<open>challenge\<close> goes
  on to \<open>step1\<close> with \<open>undefined\<close> as salt and verifier. The answer is what the engine
  makes of that, the 500 of an exception or a 200 with a state stored in the session,
  and never the 404.
\<close>

theorem challenge_inherited_name_is_not_404:
  assumes "http_method req = ''GET''" and "query_user req = Some k"
    and "k \<in> set object_prototype_keys"
    and "users st = Some u" and "own u k = None" and "proto u = None"
  shows "challenge eng rnd req sess st =
          (case step1 eng rnd k None None of
             None \<Rightarrow> (Inl EngineError, sess, st)
           | Some (B, state) \<Rightarrow>
               (Inr (send_json [(''salt'', None), (''B'', Some B)]),
                sess\<lparr>serverSession := Some state\<rparr>, st))
       \<and> code (answer (fst (challenge eng rnd req sess st))) \<noteq> 404"
proof -
  from assms(3) have "k \<noteq> []"
    by (auto simp: object_prototype_keys_def)
  moreover from assms(3-6) have "getUser st k = (Builtin, st)"
    by (simp add: getUser_def get_prop_def object_prototype_get_def)
  ultimately show ?thesis
    using assms(1,2) by (simp add: challenge_def split: option.splits)
qed

theorem challenge_inherited_name_is_not_404_witness:
  "http_method (challenge_request ''constructor'') = ''GET''
   \<and> query_user (challenge_request ''constructor'') = Some ''constructor''
   \<and> ''constructor'' \<in> set object_prototype_keys
   \<and> users \<lparr>users = Some empty_users, disk = None\<rparr> = Some empty_users
   \<and> own empty_users ''constructor'' = None \<and> proto empty_users = None
   \<and> challenge demo_engine ''r1'' (challenge_request ''constructor'') new_session
        \<lparr>users = Some empty_users, disk = None\<rparr>
       = (Inl EngineError, new_session, \<lparr>users = Some empty_users, disk = None\<rparr>)
   \<and> code (answer (fst (challenge demo_engine ''r1'' (challenge_request ''constructor'') new_session
        \<lparr>users = Some empty_users, disk = None\<rparr>))) \<noteq> 404"
proof -
  let ?req = "challenge_request ''constructor''"
  let ?st = "\<lparr>users = Some empty_users, disk = None\<rparr>"
  have req: "http_method ?req = ''GET''" "query_user ?req = Some ''constructor''"
    by (simp_all add: challenge_request_def)
  have key: "''constructor'' \<in> set object_prototype_keys"
    by (simp add: object_prototype_keys_def)
  have st: "users ?st = Some empty_users" "own empty_users ''constructor'' = None"
    "proto empty_users = None"
    by (simp_all add: empty_users_def)
  have throws: "step1 demo_engine ''r1'' ''constructor'' None None = None"
    by (simp add: demo_engine_def)
  from challenge_inherited_name_is_not_404 [OF req key st, of demo_engine "''r1''" new_session]
    req key st
  show ?thesis
    unfolding throws by simp
qed

subsection \<open>C9: which names a lookup finds\<close>

text \<open>
  C9 says that the lookup of a string succeeds if and only if that string was
  registered before. Keys are compared as they are (\<open>get_prop_set_prop_other\<close>: an
  assignment to one key changes no other, the key \<open>__proto__\<close> apart), so case matters
  and nothing is normalised. The "only if" fails: in a loaded store, the lookup of a
  name of \<open>Object.prototype\<close> that no one registered is truthy, and a \<open>register\<close> request
  for it is refused with 403 "User already exists".
\<close>

theorem lookup_succeeds_for_inherited_name:
  assumes "k \<in> set object_prototype_keys"
    and "users st = Some u" and "own u k = None" and "proto u = None"
  shows "truthy (fst (getUser st k))
       \<and> (http_method req = ''POST'' \<and> body_user req = Some k \<and> \<not> absent (body_salt req)
            \<and> \<not> absent (body_verifier req) \<longrightarrow>
            register wr req st = (Inr (send 403 ''User already exists''), st))"
proof -
  from assms(1) have "k \<noteq> []"
    by (auto simp: object_prototype_keys_def)
  moreover from assms have "getUser st k = (Builtin, st)"
    by (simp add: getUser_def get_prop_def object_prototype_get_def)
  ultimately show ?thesis
    by (simp add: register_def)
qed

theorem lookup_succeeds_for_inherited_name_witness:
  "''constructor'' \<in> set object_prototype_keys
   \<and> users (snd (getUser fresh_store ''alice'')) = Some empty_users
   \<and> own empty_users ''constructor'' = None \<and> proto empty_users = None
   \<and> truthy (fst (getUser (snd (getUser fresh_store ''alice'')) ''constructor''))
   \<and> register Written (register_request ''constructor'' ''s1'' ''v1'')
        (snd (getUser fresh_store ''alice''))
       = (Inr (send 403 ''User already exists''), snd (getUser fresh_store ''alice''))"
proof -
  let ?req = "register_request ''constructor'' ''s1'' ''v1''"
  let ?st = "snd (getUser fresh_store ''alice'')"
  have key: "''constructor'' \<in> set object_prototype_keys"
    by (simp add: object_prototype_keys_def)
  have st: "users ?st = Some empty_users" "own empty_users ''constructor'' = None"
    "proto empty_users = None"
    by (simp_all add: getUser_def fresh_store_def empty_users_def)
  have req: "http_method ?req = ''POST'' \<and> body_user ?req = Some ''constructor''
      \<and> \<not> absent (body_salt ?req) \<and> \<not> absent (body_verifier ?req)"
    by (simp add: register_request_def)
  from lookup_succeeds_for_inherited_name [OF key st, of ?req Written] req key st
  show ?thesis
    by blast
qed

subsection \<open>C10: only \<open>auth\<close> writes \<open>loggedIn\<close>\<close>

text \<open>
  C10: \<open>challenge\<close> leaves \<open>loggedIn\<close> as it is on every request, and so does every request
  that \<open>handleRequest\<close> routes to another handler than \<open>auth\<close>. In a session where
  \<open>loggedIn\<close> is true, a \<open>challenge\<close> for a registered user leaves it true and stores the
  new state of \<open>step1\<close>.
\<close>

theorem only_auth_writes_loggedIn:
  "loggedIn (fst (snd (challenge eng rnd req sess st))) = loggedIn sess
   \<and> (path req \<noteq> ''/auth'' \<longrightarrow>
        loggedIn (fst (snd (handleRequest eng rnd wr req sess st))) = loggedIn sess)
   \<and> (http_method req = ''GET'' \<and> \<not> absent (query_user req)
        \<and> fst (getUser st (str_of (query_user req))) = UserEntry r
        \<and> step1 eng rnd (str_of (query_user req)) (Some (salt r)) (Some (verifier r)) = Some (B, fresh)
        \<and> loggedIn sess = Some True \<longrightarrow>
        loggedIn (fst (snd (challenge eng rnd req sess st))) = Some True
        \<and> serverSession (fst (snd (challenge eng rnd req sess st))) = Some fresh)"
  by (auto simp: challenge_def handleRequest_def Let_def split: prod.splits option.splits)

theorem only_auth_writes_loggedIn_witness:
  "loggedIn (fst (snd (challenge demo_engine ''r1'' (challenge_request ''alice'')
        \<lparr>serverSession = None, loggedIn = Some True, server = None\<rparr> alice_store))) = Some True
   \<and> serverSession (fst (snd (challenge demo_engine ''r1'' (challenge_request ''alice'')
        \<lparr>serverSession = None, loggedIn = Some True, server = None\<rparr> alice_store)))
       = Some (''v1'', ''r1'')
   \<and> path (register_request ''bob'' ''s1'' ''v1'') \<noteq> ''/auth''
   \<and> loggedIn (fst (snd (handleRequest demo_engine ''r1'' Written (register_request ''bob'' ''s1'' ''v1'')
        \<lparr>serverSession = None, loggedIn = Some True, server = None\<rparr> alice_store))) = Some True"
proof -
  let ?creq = "challenge_request ''alice''"
  let ?rreq = "register_request ''bob'' ''s1'' ''v1''"
  let ?r = "\<lparr>salt = ''s1'', verifier = ''v1''\<rparr>"
  let ?sess = "\<lparr>serverSession = None, loggedIn = Some True, server = None\<rparr> :: (string \<times> string) session"
  have pre: "http_method ?creq = ''GET'' \<and> \<not> absent (query_user ?creq)
      \<and> fst (getUser alice_store (str_of (query_user ?creq))) = UserEntry ?r
      \<and> step1 demo_engine ''r1'' (str_of (query_user ?creq)) (Some (salt ?r)) (Some (verifier ?r))
          = Some (''B-r1'', (''v1'', ''r1''))
      \<and> loggedIn ?sess = Some True"
    by (simp add: challenge_request_def getUser_def get_prop_def alice_store_def demo_engine_def)
  have other: "path ?rreq \<noteq> ''/auth''"
    by (simp add: register_request_def)
  from only_auth_writes_loggedIn [of demo_engine "''r1''" ?creq ?sess alice_store Written ?r
      "''B-r1''" "(''v1'', ''r1'')"] pre
  have "loggedIn (fst (snd (challenge demo_engine ''r1'' ?creq ?sess alice_store))) = Some True
      \<and> serverSession (fst (snd (challenge demo_engine ''r1'' ?creq ?sess alice_store)))
          = Some (''v1'', ''r1'')"
    by blast
  moreover from only_auth_writes_loggedIn [of demo_engine "''r1''" ?rreq ?sess alice_store Written]
    other
  have "loggedIn (fst (snd (handleRequest demo_engine ''r1'' Written ?rreq ?sess alice_store)))
      = Some True"
    by simp
  ultimately show ?thesis
    using other by blast
qed

end
